theory Spec2Isabelle
  imports Main
begin

section \<open>Data model\<close>

text \<open>
  Instants (\<^verbatim>\<open>Date\<close>, \<^verbatim>\<open>Date.now()\<close>) are milliseconds since the epoch.
\<close>

type_synonym time = int

text \<open>
  A JSON text is either the output of \<^verbatim>\<open>JSON.stringify\<close> on a value, or some other
  text that \<^verbatim>\<open>JSON.parse\<close> rejects with a \<^verbatim>\<open>SyntaxError\<close>.
\<close>

datatype 'a json_text = Stringified 'a | Malformed string

definition JSON_stringify :: "'a \<Rightarrow> 'a json_text" where
  "JSON_stringify v = Stringified v"

fun JSON_parse :: "'a json_text \<Rightarrow> 'a option" where
  "JSON_parse (Stringified v) = Some v"
| "JSON_parse (Malformed s) = None"

subsection \<open>Errors\<close>

text \<open>
  Modelled from the spec: \<^verbatim>\<open>exceptions/app-error.exception\<close> is not among the sources.
  An \<^verbatim>\<open>AppError\<close> carries the class of the factory that built it (405, 400, 409, 419,
  500 in the spec's response codes) and its message; \<open>Plain\<close> is the class of an error
  built with \<^verbatim>\<open>new AppError(message, detail)\<close> directly.
\<close>

datatype status = MethodNotAllowed | BadRequest | Conflict | Expired
  | InternalServerError | Plain

datatype app_error = AppError status string

fun status_of :: "app_error \<Rightarrow> status" where
  "status_of (AppError s m) = s"

text \<open>
  The errors of the ORM. \<^verbatim>\<open>UniqueConstraintError\<close> is a subclass of
  \<^verbatim>\<open>ValidationError\<close>; \<^verbatim>\<open>ConnectionError\<close> stands for the ORM errors that are neither a
  \<^verbatim>\<open>ValidationError\<close> nor a \<^verbatim>\<open>DatabaseError\<close>.
\<close>

datatype sequelize_error = ValidationError "string list"
  | UniqueConstraintError "string list"
  | DatabaseError string
  | ConnectionError string

text \<open>Everything a \<^verbatim>\<open>throw\<close> or a rejected promise can carry.\<close>

datatype thrown = App app_error | Seq sequelize_error | SyntaxError | Error string

fun instanceof_AppError :: "thrown \<Rightarrow> bool" where
  "instanceof_AppError (App e) = True"
| "instanceof_AppError _ = False"

fun instanceof_ValidationError :: "thrown \<Rightarrow> bool" where
  "instanceof_ValidationError (Seq (ValidationError ms)) = True"
| "instanceof_ValidationError (Seq (UniqueConstraintError ms)) = True"
| "instanceof_ValidationError _ = False"

fun instanceof_DatabaseError :: "thrown \<Rightarrow> bool" where
  "instanceof_DatabaseError (Seq (DatabaseError m)) = True"
| "instanceof_DatabaseError _ = False"

subsection \<open>Records of the two stores\<close>

record TransactionRequest =
  req_type :: string
  req_amount :: int
  req_consumerId :: string

record TransactionResponse =
  res_id :: string
  res_type :: string
  res_amount :: int
  res_status :: string
  res_consumerId :: string
  res_createdAt :: time
  res_updatedAt :: "time option"

text \<open>
  Modelled from the spec: \<^verbatim>\<open>models/transaction.model\<close> is not among the sources. A row
  of the business table has the fields that \<^verbatim>\<open>createTransaction\<close> reads back from it.
\<close>

record Transaction =
  tx_id :: string
  tx_type :: string
  tx_amount :: int
  tx_status :: string
  tx_consumerId :: string
  tx_createdAt :: time
  tx_updatedAt :: "time option"

text \<open>
  \<^verbatim>\<open>IdempotencyMeta\<close>: \<open>key\<close> is the primary key of the table and a UUID,
  \<open>responsePayload\<close> is a JSON text, \<open>expiredAt\<close> may be absent (\<^verbatim>\<open>expiredAt?: Date\<close>, \<^verbatim>\<open>allowNull: true\<close>).
\<close>

record IdempotencyMeta =
  key :: string
  bodyHash :: string
  responsePayload :: "TransactionResponse json_text"
  createdAt :: time
  updatedAt :: "time option"
  expiredAt :: "time option"

record IdempotencyInterface =
  ctx_key :: string
  ctx_bodyHash :: string

subsection \<open>The world: cache, durable store, and what was done to them\<close>

datatype event = RedisGet string | RedisSet string
  | MetaFindOne string string | MetaCreate string | TransactionCreate string
  | BeginTransaction | CommitTransaction | RollbackTransaction

text \<open>
  \<open>redis\<close> maps a cache key to its JSON text and the instant at which the \<^verbatim>\<open>EX\<close> timer
  removes it. \<open>idempotency_meta\<close> and \<open>transactions\<close> are the two tables;
  \<open>open_tx\<close> holds the tables as they were when the running database transaction began.
  \<open>log\<close> lists every store access, oldest first.
\<close>

record world =
  redis :: "string \<rightharpoonup> (IdempotencyMeta json_text \<times> time)"
  idempotency_meta :: "IdempotencyMeta list"
  transactions :: "Transaction list"
  open_tx :: "(IdempotencyMeta list \<times> Transaction list) option"
  log :: "event list"

text \<open>
  What the outside can do to one call: a store call that rejects. \<open>None\<close> and \<open>False\<close>
  mean that the call works.
\<close>

record faults =
  getClient_falsy :: bool
  redis_get_rejects :: "string option"
  redis_set_rejects :: "string option"
  redis_set_not_OK :: bool
  findOne_rejects :: "sequelize_error option"
  transaction_create_rejects :: "sequelize_error option"
  meta_create_rejects :: "sequelize_error option"
  commit_rejects :: "sequelize_error option"

definition no_faults :: faults where
  "no_faults = \<lparr> getClient_falsy = False, redis_get_rejects = None,
     redis_set_rejects = None, redis_set_not_OK = False, findOne_rejects = None,
     transaction_create_rejects = None, meta_create_rejects = None,
     commit_rejects = None \<rparr>"

text \<open>
  \<^verbatim>\<open>process.env\<close>: a variable that is unset or empty is \<open>None\<close> or \<open>Some []\<close> (both
  falsy). \<open>IDEMPOTENCY_TTL_HOURS\<close> is given by the integer that \<^verbatim>\<open>parseInt\<close> reads
  from it.
\<close>

record config =
  IDEMPOTENCY_HEADER_NAME :: "string option"
  IDEMPOTENCY_PREFIX :: "string option"
  IDEMPOTENCY_TTL_HOURS :: "int option"

text \<open>
  The library functions the code calls on a request body: the SHA-256 hex digest of
  \<^verbatim>\<open>JSON.stringify(req.body)\<close>, and the UUID test of the validation schema.
\<close>

record lib =
  sha256_hex :: "TransactionRequest \<Rightarrow> string"
  is_uuid :: "string \<Rightarrow> bool"

section \<open>RedisUtil\<close>

text \<open>A string is truthy when it is not empty.\<close>

fun truthy :: "string option \<Rightarrow> bool" where
  "truthy None = False"
| "truthy (Some s) = (s \<noteq> [])"

text \<open>
  \<^verbatim>\<open>RedisUtil.get\<close>: a key whose timer has run out is gone; an empty text counts as a
  miss (\<^verbatim>\<open>if (data)\<close>); a text that does not parse raises the \<^verbatim>\<open>AppError\<close> of the
  inner \<^verbatim>\<open>catch\<close>.
\<close>

definition RedisUtil_get ::
  "faults \<Rightarrow> time \<Rightarrow> string \<Rightarrow> world \<Rightarrow> (thrown + IdempotencyMeta option) \<times> world" where
  "RedisUtil_get flt now k w =
    (if getClient_falsy flt
     then (Inl (App (AppError Plain ''Redis client not initialized'')), w)
     else
       let w1 = w\<lparr>log := log w @ [RedisGet k]\<rparr> in
       case redis_get_rejects flt of
         Some m \<Rightarrow> (Inl (Error m), w1)
       | None \<Rightarrow>
          (case redis w k of
             None \<Rightarrow> (Inr None, w1)
           | Some (txt, deadline) \<Rightarrow>
               if deadline \<le> now then (Inr None, w1)
               else (case txt of
                  Malformed s \<Rightarrow>
                    if s = [] then (Inr None, w1)
                    else (Inl (App (AppError Plain ''Invalid JSON format in cache'')), w1)
                | Stringified v \<Rightarrow> (Inr (Some v), w1))))"

text \<open>
  \<^verbatim>\<open>RedisUtil.set(key, value, ttl)\<close>: \<^verbatim>\<open>SET key json EX ttl\<close>, \<open>ttl\<close> in seconds. Redis
  rejects an expire time that is not positive.
\<close>

definition RedisUtil_set ::
  "faults \<Rightarrow> time \<Rightarrow> string \<Rightarrow> IdempotencyMeta \<Rightarrow> int \<Rightarrow> world \<Rightarrow> (thrown + unit) \<times> world" where
  "RedisUtil_set flt now k v ttl w =
    (let jsonValue = JSON_stringify v in
     if getClient_falsy flt
     then (Inl (App (AppError Plain ''Redis client not initialized'')), w)
     else
       let w1 = w\<lparr>log := log w @ [RedisSet k]\<rparr> in
       case redis_set_rejects flt of
         Some m \<Rightarrow> (Inl (Error m), w1)
       | None \<Rightarrow>
           if ttl \<le> 0 then (Inl (Error ''ERR invalid expire time in set''), w1)
           else if redis_set_not_OK flt
           then (Inl (App (AppError Plain ''Cache set error'')), w1)
           else (Inr (), w1\<lparr>redis := (redis w1)(k \<mapsto> (jsonValue, now + ttl * 1000))\<rparr>))"

section \<open>The durable store\<close>

text \<open>
  The column \<open>key\<close> of \<^verbatim>\<open>idempotency_meta\<close> is a UUID (\<^verbatim>\<open>DataType.UUID\<close> in the
  model, \<^verbatim>\<open>DataTypes.UUID\<close> in the migration), so the store reads every key it is
  given as a UUID: sixteen bytes of two hexadecimal digits each, a hyphen allowed
  after every second byte but the last, the whole optionally in braces. It prints a
  UUID in lower case in groups of 8, 4, 4, 4 and 12 digits. A text that is not a UUID
  makes the statement fail.
\<close>

definition is_xdigit :: "char \<Rightarrow> bool" where
  "is_xdigit c \<longleftrightarrow> c \<in> set ''0123456789abcdefABCDEF''"

definition lower_xdigit :: "char \<Rightarrow> char" where
  "lower_xdigit c =
     (case map_of (zip ''ABCDEF'' ''abcdef'') c of Some d \<Rightarrow> d | None \<Rightarrow> c)"

fun skip_hyphen :: "bool \<Rightarrow> string \<Rightarrow> string" where
  "skip_hyphen True (c # cs) = (if c = CHR ''-'' then cs else c # cs)"
| "skip_hyphen hyphen cs = cs"

fun read_bytes :: "bool list \<Rightarrow> string \<Rightarrow> (string \<times> string) option" where
  "read_bytes [] src = Some ([], src)"
| "read_bytes (hyphen # others) (a # b # src) =
     (if is_xdigit a \<and> is_xdigit b
      then (case read_bytes others (skip_hyphen hyphen src) of
              None \<Rightarrow> None
            | Some (digits, rest) \<Rightarrow> Some (lower_xdigit a # lower_xdigit b # digits, rest))
      else None)"
| "read_bytes (hyphen # others) src = None"

text \<open>For each of the sixteen bytes, whether a hyphen may follow it.\<close>

definition hyphen_may_follow :: "bool list" where
  "hyphen_may_follow =
     [False, True, False, True, False, True, False, True,
      False, True, False, True, False, True, False, False]"

definition uuid_out :: "string \<Rightarrow> string" where
  "uuid_out ds = take 8 ds @ ''-'' @ take 4 (drop 8 ds) @ ''-'' @ take 4 (drop 12 ds)
     @ ''-'' @ take 4 (drop 16 ds) @ ''-'' @ drop 20 ds"

text \<open>The UUID a text denotes, in the store's own spelling; \<open>None\<close> when it denotes none.\<close>

definition pg_uuid :: "string \<Rightarrow> string option" where
  "pg_uuid source =
    (let braces = (case source of c # cs \<Rightarrow> c = CHR ''{'' | [] \<Rightarrow> False);
         src = (if braces then tl source else source)
     in case read_bytes hyphen_may_follow src of
          None \<Rightarrow> None
        | Some (digits, rest) \<Rightarrow>
            if rest = (if braces then ''}'' else []) then Some (uuid_out digits) else None)"


text \<open>
  \<^verbatim>\<open>IdempotencyMeta.findOne({ where: { key, bodyHash } })\<close>: the first row that has
  the UUID of the key and the body hash asked for, its key in the store's spelling. A
  key that is not a UUID makes the query fail with a \<^verbatim>\<open>DatabaseError\<close>.
\<close>

definition IdempotencyMeta_findOne ::
  "faults \<Rightarrow> string \<Rightarrow> string \<Rightarrow> world \<Rightarrow> (thrown + IdempotencyMeta option) \<times> world" where
  "IdempotencyMeta_findOne flt k h w =
    (let w1 = w\<lparr>log := log w @ [MetaFindOne k h]\<rparr> in
     case findOne_rejects flt of
       Some e \<Rightarrow> (Inl (Seq e), w1)
     | None \<Rightarrow>
        (case pg_uuid k of
           None \<Rightarrow> (Inl (Seq (DatabaseError ''invalid input syntax for type uuid'')), w1)
         | Some u \<Rightarrow>
             (Inr (map_option (\<lambda>m. m\<lparr>key := u\<rparr>)
                (find (\<lambda>m. pg_uuid (key m) = Some u \<and> bodyHash m = h)
                   (idempotency_meta w1))), w1)))"

section \<open>The idempotency middleware\<close>

text \<open>
  \<^verbatim>\<open>String.prototype.trim\<close> on a header value, whose characters are single bytes: the
  white space and line terminators of the language below U+0100.
\<close>

definition is_white_space :: "char \<Rightarrow> bool" where
  "is_white_space c \<longleftrightarrow>
     c \<in> set [CHR 0x09, CHR 0x0A, CHR 0x0B, CHR 0x0C, CHR 0x0D, CHR 0x20, CHR 0xA0]"

definition trim :: "string \<Rightarrow> string" where
  "trim s = rev (dropWhile is_white_space (rev (dropWhile is_white_space s)))"

datatype header_value = HString string | HList "string list"

record request =
  req_method :: string
  req_headers :: "string \<rightharpoonup> header_value"
  req_body :: TransactionRequest

text \<open>
  What the middleware does when it does not throw: it answers 200 with the stored
  response (\<open>Replay\<close>), or it attaches the context to the request and calls
  \<^verbatim>\<open>next()\<close> (\<open>Admit\<close>).
\<close>

datatype decision = Replay TransactionResponse | Admit IdempotencyInterface

definition idempotentMethods :: "string list" where
  "idempotentMethods = [''POST'', ''PUT'', ''PATCH'']"

definition idempotencyKeyHeaderName :: "config \<Rightarrow> string" where
  "idempotencyKeyHeaderName cfg =
     (if truthy (IDEMPOTENCY_HEADER_NAME cfg) then the (IDEMPOTENCY_HEADER_NAME cfg)
      else ''idempotency-key'')"

text \<open>
  \<^verbatim>\<open>!idempotencyKey || typeof idempotencyKey !== 'string' || idempotencyKey.trim() === ''\<close>;
  the valid key comes back as \<open>Some\<close>.
\<close>

fun valid_key :: "header_value option \<Rightarrow> string option" where
  "valid_key None = None"
| "valid_key (Some (HList xs)) = None"
| "valid_key (Some (HString s)) = (if s = [] \<or> trim s = [] then None else Some s)"

definition redisKey :: "config \<Rightarrow> string \<Rightarrow> string" where
  "redisKey cfg idempotencyKey =
     (if truthy (IDEMPOTENCY_PREFIX cfg)
      then the (IDEMPOTENCY_PREFIX cfg) @ '':'' @ idempotencyKey
      else ''idempotency:'' @ idempotencyKey)"

definition invalid_key_error :: app_error where
  "invalid_key_error = AppError BadRequest ''Invalid idempotency key''"

definition conflict_error :: app_error where
  "conflict_error = AppError Conflict ''Idempotency key conflict''"

definition expired_error :: app_error where
  "expired_error = AppError Expired ''Idempotency key expired''"

text \<open>The \<^verbatim>\<open>catch\<close> of the middleware: an \<^verbatim>\<open>AppError\<close> is thrown again as it is.\<close>

fun middleware_catch :: "thrown \<Rightarrow> app_error" where
  "middleware_catch (App e) = e"
| "middleware_catch _ = AppError InternalServerError ''Error checking idempotency key''"

text \<open>\<^verbatim>\<open>m.expiredAt && new Date(m.expiredAt) < currentTime\<close>\<close>

fun is_expired :: "time option \<Rightarrow> time \<Rightarrow> bool" where
  "is_expired None currentTime = False"
| "is_expired (Some t) currentTime = (t < currentTime)"

definition idempotencyMiddleware ::
  "lib \<Rightarrow> config \<Rightarrow> faults \<Rightarrow> time \<Rightarrow> request \<Rightarrow> world \<Rightarrow> (app_error + decision) \<times> world" where
  "idempotencyMiddleware lb cfg flt now req w =
    (if req_method req \<notin> set idempotentMethods
     then (Inl (AppError MethodNotAllowed ''Method not allowed''), w)
     else case valid_key (req_headers req (idempotencyKeyHeaderName cfg)) of
       None \<Rightarrow> (Inl invalid_key_error, w)
     | Some idempotencyKey \<Rightarrow>
        let requestBodyHash = sha256_hex lb (req_body req) in
        (case RedisUtil_get flt now (redisKey cfg idempotencyKey) w of
           (Inl e, w1) \<Rightarrow> (Inl (middleware_catch e), w1)
         | (Inr (Some alreadyProcessed), w1) \<Rightarrow>
             if bodyHash alreadyProcessed \<noteq> requestBodyHash
             then (Inl conflict_error, w1)
             else if is_expired (expiredAt alreadyProcessed) now
             then (Inl expired_error, w1)
             else (case JSON_parse (responsePayload alreadyProcessed) of
                     None \<Rightarrow> (Inl (middleware_catch SyntaxError), w1)
                   | Some d \<Rightarrow> (Inr (Replay d), w1))
         | (Inr None, w1) \<Rightarrow>
            (case IdempotencyMeta_findOne flt idempotencyKey requestBodyHash w1 of
               (Inl e, w2) \<Rightarrow> (Inl (middleware_catch e), w2)
             | (Inr (Some idempotencyMeta), w2) \<Rightarrow>
                 if bodyHash idempotencyMeta \<noteq> requestBodyHash
                 then (Inl conflict_error, w2)
                 else if is_expired (expiredAt idempotencyMeta) now
                 then (Inl expired_error, w2)
                 else (case JSON_parse (responsePayload idempotencyMeta) of
                         None \<Rightarrow> (Inl (middleware_catch SyntaxError), w2)
                       | Some d \<Rightarrow> (Inr (Replay d), w2))
             | (Inr None, w2) \<Rightarrow>
                 (Inr (Admit \<lparr> ctx_key = idempotencyKey,
                                ctx_bodyHash = requestBodyHash \<rparr>), w2))))"

section \<open>The transaction service\<close>

text \<open>
  Modelled from the spec: \<^verbatim>\<open>config/db.config\<close> is not among the sources.
  \<^verbatim>\<open>DatabaseConfig.beginTransaction()\<close> opens the one transaction of the durable
  store; the tables as they are at that moment are kept for a rollback.
\<close>

definition beginTransaction :: "world \<Rightarrow> world" where
  "beginTransaction w =
     w\<lparr>open_tx := Some (idempotency_meta w, transactions w),
       log := log w @ [BeginTransaction]\<rparr>"

text \<open>
  Modelled from the spec: \<^verbatim>\<open>config/db.config\<close> is not among the sources.
  \<^verbatim>\<open>DatabaseConfig.commitTransaction()\<close> makes what was written since the begin
  permanent, or rejects.
\<close>

definition commitTransaction :: "faults \<Rightarrow> world \<Rightarrow> (thrown + unit) \<times> world" where
  "commitTransaction flt w =
    (let w1 = w\<lparr>log := log w @ [CommitTransaction]\<rparr> in
     case commit_rejects flt of
       Some e \<Rightarrow> (Inl (Seq e), w1)
     | None \<Rightarrow> (Inr (), w1\<lparr>open_tx := None\<rparr>))"

text \<open>
  Modelled from the spec: \<^verbatim>\<open>config/db.config\<close> is not among the sources.
  \<^verbatim>\<open>DatabaseConfig.rollbackTransaction()\<close> undoes everything written since the begin:
  both tables go back to what they were then.
\<close>

definition rollbackTransaction :: "world \<Rightarrow> world" where
  "rollbackTransaction w =
    (let w1 = w\<lparr>log := log w @ [RollbackTransaction]\<rparr> in
     case open_tx w1 of
       None \<Rightarrow> w1
     | Some (metas, txs) \<Rightarrow>
         w1\<lparr>idempotency_meta := metas, transactions := txs, open_tx := None\<rparr>)"

text \<open>
  \<^verbatim>\<open>Transaction.create({type, amount, status: 'pending', consumerId}, {transaction: t})\<close>:
  the store gives the row its id (\<open>uuid\<close>) and its timestamps.
\<close>

definition Transaction_create ::
  "faults \<Rightarrow> time \<Rightarrow> string \<Rightarrow> string \<Rightarrow> int \<Rightarrow> string \<Rightarrow> string \<Rightarrow> world
     \<Rightarrow> (thrown + Transaction) \<times> world" where
  "Transaction_create flt now uuid type amount status consumerId w =
    (let w1 = w\<lparr>log := log w @ [TransactionCreate uuid]\<rparr> in
     case transaction_create_rejects flt of
       Some e \<Rightarrow> (Inl (Seq e), w1)
     | None \<Rightarrow>
         let row = \<lparr> tx_id = uuid, tx_type = type, tx_amount = amount,
                     tx_status = status, tx_consumerId = consumerId,
                     tx_createdAt = now, tx_updatedAt = Some now \<rparr>
         in (Inr row, w1\<lparr>transactions := transactions w1 @ [row]\<rparr>))"

text \<open>
  \<^verbatim>\<open>IdempotencyMeta.create(meta, {transaction: t})\<close>: \<open>key\<close> is the primary key and a
  UUID. A key that is not a UUID is refused with a \<^verbatim>\<open>DatabaseError\<close>, a key whose
  UUID is already in the table with a \<^verbatim>\<open>UniqueConstraintError\<close>. The row comes back
  with its key in the store's spelling.
\<close>

definition IdempotencyMeta_create ::
  "faults \<Rightarrow> time \<Rightarrow> string \<Rightarrow> string \<Rightarrow> TransactionResponse json_text \<Rightarrow> time option \<Rightarrow> world
     \<Rightarrow> (thrown + IdempotencyMeta) \<times> world" where
  "IdempotencyMeta_create flt now k h payload expires w =
    (let w1 = w\<lparr>log := log w @ [MetaCreate k]\<rparr> in
     case meta_create_rejects flt of
       Some e \<Rightarrow> (Inl (Seq e), w1)
     | None \<Rightarrow>
        (case pg_uuid k of
           None \<Rightarrow> (Inl (Seq (DatabaseError ''invalid input syntax for type uuid'')), w1)
         | Some u \<Rightarrow>
             if Some u \<in> (\<lambda>m. pg_uuid (key m)) ` set (idempotency_meta w1)
             then (Inl (Seq (UniqueConstraintError [''key must be unique''])), w1)
             else
               let row = \<lparr> key = u, bodyHash = h, responsePayload = payload,
                           createdAt = now, updatedAt = Some now, expiredAt = expires \<rparr>
               in (Inr row, w1\<lparr>idempotency_meta := idempotency_meta w1 @ [row]\<rparr>)))"

text \<open>\<^verbatim>\<open>TransactionRequestSchema\<close>\<close>

definition TransactionRequestSchema :: "lib \<Rightarrow> TransactionRequest \<Rightarrow> bool" where
  "TransactionRequestSchema lb r \<longleftrightarrow>
     req_type r \<in> set [''payment'', ''withdrawal'', ''disbursement'']
     \<and> 0 \<le> req_amount r \<and> is_uuid lb (req_consumerId r)"

text \<open>
  \<^verbatim>\<open>process.env.IDEMPOTENCY_TTL_HOURS ? parseInt(process.env.IDEMPOTENCY_TTL_HOURS) * 3600 : 3600\<close>
\<close>

definition ttl_seconds :: "config \<Rightarrow> int" where
  "ttl_seconds cfg =
     (case IDEMPOTENCY_TTL_HOURS cfg of Some hours \<Rightarrow> hours * 3600 | None \<Rightarrow> 3600)"

definition ttl_millis :: "config \<Rightarrow> int" where
  "ttl_millis cfg =
     (case IDEMPOTENCY_TTL_HOURS cfg of Some hours \<Rightarrow> hours * 3600 * 1000
      | None \<Rightarrow> 3600 * 1000)"

text \<open>The body of the \<^verbatim>\<open>try\<close> of \<^verbatim>\<open>createTransaction\<close>, statement by statement.\<close>

definition createTransaction_try ::
  "config \<Rightarrow> faults \<Rightarrow> time \<Rightarrow> string \<Rightarrow> string \<Rightarrow> string \<Rightarrow> TransactionRequest \<Rightarrow> world
     \<Rightarrow> (thrown + TransactionResponse) \<times> world" where
  "createTransaction_try cfg flt now uuid idempotencyKey h r w =
    (case Transaction_create flt now uuid (req_type r) (req_amount r) ''pending''
            (req_consumerId r) w of
       (Inl e, w1) \<Rightarrow> (Inl e, w1)
     | (Inr transaction, w1) \<Rightarrow>
        let transactionResponse =
              \<lparr> res_id = tx_id transaction, res_type = tx_type transaction,
                res_amount = tx_amount transaction, res_status = tx_status transaction,
                res_consumerId = tx_consumerId transaction,
                res_createdAt = tx_createdAt transaction,
                res_updatedAt = tx_updatedAt transaction \<rparr>
        in
        (case IdempotencyMeta_create flt now idempotencyKey h
                (JSON_stringify transactionResponse) (Some (now + ttl_millis cfg)) w1 of
           (Inl e, w2) \<Rightarrow> (Inl e, w2)
         | (Inr idempotencyMetaRecord, w2) \<Rightarrow>
            (case RedisUtil_set flt now (redisKey cfg idempotencyKey)
                    idempotencyMetaRecord (ttl_seconds cfg) w2 of
               (Inl e, w3) \<Rightarrow> (Inl e, w3)
             | (Inr u, w3) \<Rightarrow>
                (case commitTransaction flt w3 of
                   (Inl e, w4) \<Rightarrow> (Inl e, w4)
                 | (Inr u', w4) \<Rightarrow> (Inr transactionResponse, w4)))))"

text \<open>The \<^verbatim>\<open>catch\<close> of \<^verbatim>\<open>createTransaction\<close>, after the rollback.\<close>

definition createTransaction_catch :: "thrown \<Rightarrow> app_error" where
  "createTransaction_catch e =
    (case e of
       App a \<Rightarrow> a
     | _ \<Rightarrow>
        if instanceof_ValidationError e
        then AppError BadRequest ''Validation errors occurred''
        else if instanceof_DatabaseError e
        then AppError InternalServerError ''Database error''
        else AppError InternalServerError
               ''An unexpected error occurred while creating the transaction'')"

definition createTransaction ::
  "lib \<Rightarrow> config \<Rightarrow> faults \<Rightarrow> time \<Rightarrow> string \<Rightarrow> string \<Rightarrow> string \<Rightarrow> TransactionRequest \<Rightarrow> world
     \<Rightarrow> (app_error + TransactionResponse) \<times> world" where
  "createTransaction lb cfg flt now uuid idempotencyKey h transactionRequest w =
    (case valid_key (Some (HString idempotencyKey)) of
       None \<Rightarrow> (Inl invalid_key_error, w)
     | Some k \<Rightarrow>
        if \<not> TransactionRequestSchema lb transactionRequest
        then (Inl (AppError BadRequest ''Invalid transaction request''), w)
        else
          let t = beginTransaction w in
          (case createTransaction_try cfg flt now uuid idempotencyKey h transactionRequest t of
             (Inr transactionResponse, w') \<Rightarrow> (Inr transactionResponse, w')
           | (Inl e, w') \<Rightarrow> (Inl (createTransaction_catch e), rollbackTransaction w')))"

section \<open>Controller and route\<close>

text \<open>
  \<^verbatim>\<open>TransactionController.createTransaction\<close>: the schema's \<^verbatim>\<open>parse\<close> throws on a body
  that does not fit (reported here as a 400); the context the middleware attached must
  be there with a key and a body hash; the answer is 201 with the new transaction.
\<close>

definition controller_createTransaction ::
  "lib \<Rightarrow> config \<Rightarrow> faults \<Rightarrow> time \<Rightarrow> string \<Rightarrow> request \<Rightarrow> IdempotencyInterface option \<Rightarrow> world
     \<Rightarrow> (app_error + nat \<times> TransactionResponse) \<times> world" where
  "controller_createTransaction lb cfg flt now uuid req idempotencyContext w =
    (if \<not> TransactionRequestSchema lb (req_body req)
     then (Inl (AppError BadRequest ''Validation error''), w)
     else case idempotencyContext of
       None \<Rightarrow> (Inl (AppError BadRequest ''Invalid idempotency context''), w)
     | Some c \<Rightarrow>
        if ctx_key c = [] \<or> ctx_bodyHash c = []
        then (Inl (AppError BadRequest ''Invalid idempotency context''), w)
        else (case createTransaction lb cfg flt now uuid (ctx_key c) (ctx_bodyHash c)
                     (req_body req) w of
                (Inl e, w') \<Rightarrow> (Inl e, w')
              | (Inr transaction, w') \<Rightarrow> (Inr (201, transaction), w')))"

text \<open>
  Modelled from the spec: \<^verbatim>\<open>middlewares/validator.middleware\<close> is not among the
  sources. \<^verbatim>\<open>Validate(schema)\<close> answers a body that fails the schema with 400 and lets
  every other request through.
\<close>

definition Validate :: "lib \<Rightarrow> request \<Rightarrow> app_error option" where
  "Validate lb req =
     (if TransactionRequestSchema lb (req_body req) then None
      else Some (AppError BadRequest ''Validation error''))"

text \<open>
  \<^verbatim>\<open>router.post('', IdempotencyMiddleware, Validate(TransactionRequestSchema),
  CatchAsync(TransactionController.createTransaction))\<close>: one request from the first
  middleware to the answer. A replay is answered by the middleware itself with 200.
\<close>

definition post_transactions ::
  "lib \<Rightarrow> config \<Rightarrow> faults \<Rightarrow> time \<Rightarrow> string \<Rightarrow> request \<Rightarrow> world
     \<Rightarrow> (app_error + nat \<times> TransactionResponse) \<times> world" where
  "post_transactions lb cfg flt now uuid req w =
    (case idempotencyMiddleware lb cfg flt now req w of
       (Inl e, w1) \<Rightarrow> (Inl e, w1)
     | (Inr (Replay d), w1) \<Rightarrow> (Inr (200, d), w1)
     | (Inr (Admit c), w1) \<Rightarrow>
        (case Validate lb req of
           Some e \<Rightarrow> (Inl e, w1)
         | None \<Rightarrow> controller_createTransaction lb cfg flt now uuid req (Some c) w1))"

section \<open>Sample data\<close>

text \<open>
  The requests of the scenarios, with a UUID as idempotency key: a payment of 12000 and
  the same payment with 15000. The digest here is a stand-in that tells the two bodies
  apart; the UUID test of the schema is the one for hexadecimal digits in groups of
  8, 4, 4, 4 and 12.
\<close>

fun shaped :: "string \<Rightarrow> string \<Rightarrow> bool" where
  "shaped [] [] = True"
| "shaped (t # ts) (c # cs) =
     ((if t = CHR ''-'' then c = CHR ''-'' else is_xdigit c) \<and> shaped ts cs)"
| "shaped ts cs = False"

definition sample_lib :: lib where
  "sample_lib = \<lparr> sha256_hex = (\<lambda>r. if req_amount r = 12000 then ''5f2a'' else ''c81e''),
                  is_uuid = shaped ''xxxxxxxx-xxxx-xxxx-xxxx-xxxxxxxxxxxx'' \<rparr>"

definition sample_config :: config where
  "sample_config = \<lparr> IDEMPOTENCY_HEADER_NAME = None, IDEMPOTENCY_PREFIX = None,
                     IDEMPOTENCY_TTL_HOURS = None \<rparr>"

definition sample_key :: string where
  "sample_key = ''7c9e6679-7425-40de-944b-e07fc1f90ae7''"

definition first_id :: string where
  "first_id = ''8c825416-f74d-4a9d-aea6-9b5c82c5d22b''"

definition second_id :: string where
  "second_id = ''46f704f5-cfd6-43b8-8a3f-563f0a97ccea''"

definition payment :: "int \<Rightarrow> TransactionRequest" where
  "payment amount = \<lparr> req_type = ''payment'', req_amount = amount,
                      req_consumerId = ''2e373ce7-7207-43a4-9133-c820253252f6'' \<rparr>"

definition sample_request :: "string \<Rightarrow> string \<Rightarrow> int \<Rightarrow> request" where
  "sample_request m k amount =
     \<lparr> req_method = m, req_headers = [''idempotency-key'' \<mapsto> HString k],
       req_body = payment amount \<rparr>"

definition empty_world :: world where
  "empty_world = \<lparr> redis = Map.empty, idempotency_meta = [], transactions = [],
                   open_tx = None, log = [] \<rparr>"

definition sample_response :: TransactionResponse where
  "sample_response = \<lparr> res_id = first_id, res_type = ''payment'', res_amount = 12000,
      res_status = ''pending'',
      res_consumerId = ''2e373ce7-7207-43a4-9133-c820253252f6'',
      res_createdAt = 1000, res_updatedAt = Some 1000 \<rparr>"

definition sample_meta :: "time option \<Rightarrow> IdempotencyMeta" where
  "sample_meta expires = \<lparr> key = sample_key, bodyHash = ''5f2a'',
      responsePayload = Stringified sample_response, createdAt = 1000,
      updatedAt = Some 1000, expiredAt = expires \<rparr>"

text \<open>
  A world after the first request of the scenarios: the durable store holds the
  transaction and its idempotency record (valid until \<open>expires\<close>), and the cache holds
  what \<open>cache\<close> lists.
\<close>

definition sample_row :: Transaction where
  "sample_row = \<lparr> tx_id = first_id, tx_type = ''payment'', tx_amount = 12000,
      tx_status = ''pending'',
      tx_consumerId = ''2e373ce7-7207-43a4-9133-c820253252f6'',
      tx_createdAt = 1000, tx_updatedAt = Some 1000 \<rparr>"

definition sample_world ::
  "(string \<times> IdempotencyMeta json_text \<times> time) list \<Rightarrow> time option \<Rightarrow> world" where
  "sample_world cache expires =
     \<lparr> redis = map_of cache, idempotency_meta = [sample_meta expires],
       transactions = [sample_row], open_tx = None, log = [] \<rparr>"

definition sample_cache_key :: string where
  "sample_cache_key = redisKey sample_config sample_key"

definition cached :: "time option \<Rightarrow> time \<Rightarrow> (string \<times> IdempotencyMeta json_text \<times> time) list" where
  "cached expires deadline =
     [(sample_cache_key, Stringified (sample_meta expires), deadline)]"

text \<open>The world that the first request of the scenarios, made at time 1000, leaves.\<close>

definition first_log :: "event list" where
  "first_log = [RedisGet sample_cache_key, MetaFindOne sample_key ''5f2a'',
     BeginTransaction, TransactionCreate first_id, MetaCreate sample_key,
     RedisSet sample_cache_key, CommitTransaction]"

definition after_first :: world where
  "after_first = (sample_world (cached (Some 3601000) 3601000) (Some 3601000))
                   \<lparr>log := first_log\<rparr>"

section \<open>UUID keys\<close>









section \<open>The sample data, evaluated\<close>

lemma sample_key_uuid: "pg_uuid sample_key = Some sample_key"
  by (simp add: sample_key_def pg_uuid_def hyphen_may_follow_def uuid_out_def is_xdigit_def
      lower_xdigit_def)

lemma other_spelling_same_uuid:
  "pg_uuid ''{7C9E6679-7425-40DE-944B-E07FC1F90AE7}'' = Some sample_key"
  by (simp add: sample_key_def pg_uuid_def hyphen_may_follow_def uuid_out_def is_xdigit_def
      lower_xdigit_def)

lemma not_a_uuid: "pg_uuid ''unique-key-123'' = None"
  by (simp add: pg_uuid_def hyphen_may_follow_def is_xdigit_def)

lemma sample_key_valid: "valid_key (Some (HString sample_key)) = Some sample_key"
  by (simp add: sample_key_def trim_def is_white_space_def)

lemma sample_key_nonempty: "sample_key \<noteq> []"
  by (simp add: sample_key_def)

lemma sample_key_trim: "trim sample_key = sample_key"
  by (simp add: sample_key_def trim_def is_white_space_def)

lemma ids_differ: "first_id \<noteq> second_id"
  by (simp add: first_id_def second_id_def)

lemmas sample_defs = sample_world_def sample_meta_def sample_request_def sample_lib_def
  sample_config_def payment_def sample_response_def sample_row_def empty_world_def
  no_faults_def cached_def after_first_def first_log_def sample_cache_key_def
  sample_key_uuid sample_key_trim sample_key_nonempty ids_differ

lemmas middleware_defs = idempotencyMiddleware_def RedisUtil_get_def
  IdempotencyMeta_findOne_def redisKey_def idempotencyKeyHeaderName_def
  idempotentMethods_def conflict_error_def expired_error_def
  invalid_key_error_def JSON_stringify_def

lemmas service_defs = createTransaction_try_def Transaction_create_def
  IdempotencyMeta_create_def RedisUtil_set_def commitTransaction_def

lemmas sample_service_defs = createTransaction_def service_defs beginTransaction_def
  rollbackTransaction_def createTransaction_catch_def TransactionRequestSchema_def
  is_xdigit_def ttl_seconds_def ttl_millis_def Let_def redisKey_def JSON_stringify_def
  invalid_key_error_def

lemmas route_defs = post_transactions_def Validate_def controller_createTransaction_def

section \<open>What the two lookups do to the world\<close>


lemma RedisUtil_get_error:
  assumes "RedisUtil_get flt now k w = (Inl e, w1)"
  shows "status_of (middleware_catch e) \<in> {Plain, InternalServerError}"
  using assms
  by (auto simp: RedisUtil_get_def Let_def
      split: if_splits option.splits prod.splits json_text.splits)


lemma findOne_error:
  assumes "IdempotencyMeta_findOne flt k h w = (Inl e, w1)"
  shows "status_of (middleware_catch e) = InternalServerError"
  using assms
  by (auto simp: IdempotencyMeta_findOne_def Let_def split: option.splits)

lemma find_Some_holds: "find P xs = Some x \<Longrightarrow> P x \<and> x \<in> set xs"
  by (induction xs) (auto split: if_splits)

lemma findOne_hit:
  assumes "IdempotencyMeta_findOne flt k h w = (Inr (Some m), w1)"
  shows "pg_uuid k = Some (key m) \<and> bodyHash m = h"
proof -
  from assms obtain u x where u: "pg_uuid k = Some u"
    and x: "find (\<lambda>m. pg_uuid (key m) = Some u \<and> bodyHash m = h) (idempotency_meta w) = Some x"
    and m: "m = x\<lparr>key := u\<rparr>"
    by (auto simp: IdempotencyMeta_findOne_def Let_def split: option.splits)
  from find_Some_holds [OF x] u m show ?thesis by simp
qed

text \<open>A key that is no UUID: the durable lookup fails, the middleware answers 500.\<close>

lemma lookup_of_non_uuid_key:
  "IdempotencyMeta_findOne no_faults ''unique-key-123'' h w
     = (Inl (Seq (DatabaseError ''invalid input syntax for type uuid'')),
        w\<lparr>log := log w @ [MetaFindOne ''unique-key-123'' h]\<rparr>)"
  by (simp add: IdempotencyMeta_findOne_def no_faults_def not_a_uuid)

section \<open>Key validation\<close>

lemma trim_white_space: "\<forall>c \<in> set s. is_white_space c \<Longrightarrow> trim s = []"
proof -
  assume "\<forall>c \<in> set s. is_white_space c"
  then have nothing_left: "dropWhile is_white_space s = []" by simp
  show "trim s = []" unfolding trim_def nothing_left by simp
qed

text \<open>
  C10: a key made of white space only is rejected with the error of a missing or
  empty key (400, "Invalid idempotency key"), for a method the middleware protects, and
  the world is left as it was.
\<close>

theorem whitespace_key_is_invalid:
  assumes "req_method req \<in> set idempotentMethods"
    and "req_headers req (idempotencyKeyHeaderName cfg) = Some (HString s)"
    and "\<forall>c \<in> set s. is_white_space c"
  shows "idempotencyMiddleware lb cfg flt now req w = (Inl invalid_key_error, w)"
  using assms by (simp add: idempotencyMiddleware_def trim_white_space)

theorem whitespace_key_is_invalid_witness:
  "req_method (sample_request ''POST'' [CHR 0x20, CHR 0x09, CHR 0x20] 12000)
     \<in> set idempotentMethods
   \<and> req_headers (sample_request ''POST'' [CHR 0x20, CHR 0x09, CHR 0x20] 12000)
       (idempotencyKeyHeaderName sample_config) = Some (HString [CHR 0x20, CHR 0x09, CHR 0x20])
   \<and> is_white_space (CHR 0x20) \<and> is_white_space (CHR 0x09)
   \<and> idempotencyMiddleware sample_lib sample_config no_faults 2000
       (sample_request ''POST'' [CHR 0x20, CHR 0x09, CHR 0x20] 12000) empty_world
      = (Inl invalid_key_error, empty_world)"
  using whitespace_key_is_invalid [where req = "sample_request ''POST'' [CHR 0x20, CHR 0x09, CHR 0x20] 12000"
      and cfg = sample_config and s = "[CHR 0x20, CHR 0x09, CHR 0x20]" and lb = sample_lib
      and flt = no_faults and now = 2000 and w = empty_world]
  by (simp add: sample_request_def idempotentMethods_def idempotencyKeyHeaderName_def
      sample_config_def is_white_space_def)

section \<open>Validation comes before the stores\<close>

text \<open>
  C7: when the middleware fails with \<open>MethodNotAllowed\<close> (405) or with the invalid-key
  error (400), the world it leaves is the world it found: nothing was read from or
  written to the cache or the durable store, and the log of store accesses has not
  grown.
\<close>

theorem validation_errors_touch_no_store:
  assumes run: "idempotencyMiddleware lb cfg flt now req w = (Inl e, w')"
    and err: "status_of e = MethodNotAllowed \<or> status_of e = BadRequest"
  shows "w' = w"
proof (cases "req_method req \<in> set idempotentMethods")
  case False
  with run show ?thesis by (simp add: idempotencyMiddleware_def)
next
  case allowed: True
  show ?thesis
  proof (cases "valid_key (req_headers req (idempotencyKeyHeaderName cfg))")
    case None
    with run allowed show ?thesis by (simp add: idempotencyMiddleware_def)
  next
    case valid: (Some k)
    obtain r1 w1 where get: "RedisUtil_get flt now (redisKey cfg k) w = (r1, w1)"
      by (cases "RedisUtil_get flt now (redisKey cfg k) w")
    obtain r2 w2 where
      find: "IdempotencyMeta_findOne flt k (sha256_hex lb (req_body req)) w1 = (r2, w2)"
      by (cases "IdempotencyMeta_findOne flt k (sha256_hex lb (req_body req)) w1")
    from run allowed valid get find
    have "status_of e \<in> {Plain, InternalServerError, Conflict, Expired}"
      using RedisUtil_get_error [of flt now "redisKey cfg k" w _ w1]
        findOne_error [of flt k "sha256_hex lb (req_body req)" w1 _ w2]
      by (auto simp: idempotencyMiddleware_def Let_def conflict_error_def expired_error_def
          split: sum.splits option.splits if_splits)
    with err show ?thesis by auto
  qed
qed

theorem validation_errors_touch_no_store_witness:
  "idempotencyMiddleware sample_lib sample_config no_faults 2000
      (sample_request ''GET'' sample_key 12000) (sample_world [] (Some 5000))
     = (Inl (AppError MethodNotAllowed ''Method not allowed''), sample_world [] (Some 5000))
   \<and> status_of (AppError MethodNotAllowed ''Method not allowed'') = MethodNotAllowed
   \<and> idempotencyMiddleware sample_lib sample_config no_faults 2000
      (sample_request ''POST'' [] 12000) (sample_world [] (Some 5000))
     = (Inl invalid_key_error, sample_world [] (Some 5000))
   \<and> status_of invalid_key_error = BadRequest
   \<and> log (sample_world [] (Some 5000)) = []"
  using validation_errors_touch_no_store [where lb = sample_lib and cfg = sample_config
      and flt = no_faults and now = 2000
      and req = "sample_request ''GET'' sample_key 12000"
      and w = "sample_world [] (Some 5000)" and w' = "sample_world [] (Some 5000)"
      and e = "AppError MethodNotAllowed ''Method not allowed''"]
    validation_errors_touch_no_store [where lb = sample_lib and cfg = sample_config
      and flt = no_faults and now = 2000
      and req = "sample_request ''POST'' [] 12000"
      and w = "sample_world [] (Some 5000)" and w' = "sample_world [] (Some 5000)"
      and e = invalid_key_error]
  by (simp add: sample_defs middleware_defs)

section \<open>The durable lookup and its dead branch\<close>

text \<open>
  C8: on the durable-store-hit path (the cache lookup found nothing, \<^verbatim>\<open>findOne\<close> found
  a record) the record found has the body hash of the current request, because
  \<^verbatim>\<open>findOne\<close> filters by key and by that hash; the test
  \<^verbatim>\<open>idempotencyMeta.bodyHash !== requestBodyHash\<close> is false there and the middleware
  does not answer with the conflict error.
\<close>

theorem durable_conflict_branch_unreachable:
  assumes allowed: "req_method req \<in> set idempotentMethods"
    and valid: "valid_key (req_headers req (idempotencyKeyHeaderName cfg)) = Some k"
    and miss: "RedisUtil_get flt now (redisKey cfg k) w = (Inr None, w1)"
    and hit: "IdempotencyMeta_findOne flt k (sha256_hex lb (req_body req)) w1
                = (Inr (Some m), w2)"
  shows "bodyHash m = sha256_hex lb (req_body req)
       \<and> fst (idempotencyMiddleware lb cfg flt now req w) \<noteq> Inl conflict_error"
proof -
  from findOne_hit [OF hit] have same: "bodyHash m = sha256_hex lb (req_body req)" by simp
  from allowed valid miss hit same
  have "fst (idempotencyMiddleware lb cfg flt now req w) \<noteq> Inl conflict_error"
    by (simp add: idempotencyMiddleware_def conflict_error_def expired_error_def
        split: option.splits)
  with same show ?thesis by simp
qed

theorem durable_conflict_branch_unreachable_witness:
  "req_method (sample_request ''POST'' sample_key 12000) \<in> set idempotentMethods
   \<and> valid_key (req_headers (sample_request ''POST'' sample_key 12000)
        (idempotencyKeyHeaderName sample_config)) = Some sample_key
   \<and> RedisUtil_get no_faults 2000 (redisKey sample_config sample_key)
        (sample_world [] (Some 5000))
      = (Inr None, (sample_world [] (Some 5000))\<lparr>log := [RedisGet sample_cache_key]\<rparr>)
   \<and> IdempotencyMeta_findOne no_faults sample_key
        (sha256_hex sample_lib (req_body (sample_request ''POST'' sample_key 12000)))
        ((sample_world [] (Some 5000))\<lparr>log := [RedisGet sample_cache_key]\<rparr>)
      = (Inr (Some (sample_meta (Some 5000))), (sample_world [] (Some 5000))
           \<lparr>log := [RedisGet sample_cache_key, MetaFindOne sample_key ''5f2a'']\<rparr>)
   \<and> bodyHash (sample_meta (Some 5000))
      = sha256_hex sample_lib (req_body (sample_request ''POST'' sample_key 12000))
   \<and> fst (idempotencyMiddleware sample_lib sample_config no_faults 2000
        (sample_request ''POST'' sample_key 12000) (sample_world [] (Some 5000)))
      \<noteq> Inl conflict_error"
  using durable_conflict_branch_unreachable
    [where req = "sample_request ''POST'' sample_key 12000"
      and cfg = sample_config and k = sample_key and flt = no_faults and now = 2000
      and w = "sample_world [] (Some 5000)" and lb = sample_lib
      and m = "sample_meta (Some 5000)"
      and ?w1.0 = "(sample_world [] (Some 5000))\<lparr>log := [RedisGet sample_cache_key]\<rparr>"
      and ?w2.0 = "(sample_world [] (Some 5000))
           \<lparr>log := [RedisGet sample_cache_key, MetaFindOne sample_key ''5f2a'']\<rparr>"]
  by (simp add: sample_defs middleware_defs)

section \<open>Expiry\<close>

text \<open>
  C5: a request with a protected method, a valid key and the body hash of the stored
  record \<open>m\<close>, whose \<open>expiredAt\<close> is strictly before the current time, is answered with
  the expired error (419) and not with a replay. This holds when \<open>m\<close> is the record the
  cache returns, and when the cache returns nothing and \<open>m\<close> is the record the durable
  store returns.
\<close>

theorem expired_record_is_rejected:
  assumes allowed: "req_method req \<in> set idempotentMethods"
    and valid: "valid_key (req_headers req (idempotencyKeyHeaderName cfg)) = Some k"
    and same: "bodyHash m = sha256_hex lb (req_body req)"
    and past: "expiredAt m = Some t" "t < now"
    and stored: "RedisUtil_get flt now (redisKey cfg k) w = (Inr (Some m), w')
      \<or> (\<exists>w1. RedisUtil_get flt now (redisKey cfg k) w = (Inr None, w1)
            \<and> IdempotencyMeta_findOne flt k (sha256_hex lb (req_body req)) w1
                = (Inr (Some m), w'))"
  shows "idempotencyMiddleware lb cfg flt now req w = (Inl expired_error, w')"
  using stored
proof
  assume "RedisUtil_get flt now (redisKey cfg k) w = (Inr (Some m), w')"
  with allowed valid same past show ?thesis
    by (simp add: idempotencyMiddleware_def)
next
  assume "\<exists>w1. RedisUtil_get flt now (redisKey cfg k) w = (Inr None, w1)
            \<and> IdempotencyMeta_findOne flt k (sha256_hex lb (req_body req)) w1
                = (Inr (Some m), w')"
  then obtain w1 where "RedisUtil_get flt now (redisKey cfg k) w = (Inr None, w1)"
    and "IdempotencyMeta_findOne flt k (sha256_hex lb (req_body req)) w1 = (Inr (Some m), w')"
    by blast
  with allowed valid same past show ?thesis
    by (simp add: idempotencyMiddleware_def)
qed

theorem expired_record_is_rejected_witness:
  "req_method (sample_request ''POST'' sample_key 12000) \<in> set idempotentMethods
   \<and> valid_key (req_headers (sample_request ''POST'' sample_key 12000)
        (idempotencyKeyHeaderName sample_config)) = Some sample_key
   \<and> bodyHash (sample_meta (Some 5000))
      = sha256_hex sample_lib (req_body (sample_request ''POST'' sample_key 12000))
   \<and> expiredAt (sample_meta (Some 5000)) = Some 5000 \<and> (5000 :: int) < 6000
   \<and> RedisUtil_get no_faults 6000 (redisKey sample_config sample_key)
        (sample_world (cached (Some 5000) 9000) (Some 5000))
      = (Inr (Some (sample_meta (Some 5000))),
         (sample_world (cached (Some 5000) 9000) (Some 5000))
           \<lparr>log := [RedisGet sample_cache_key]\<rparr>)
   \<and> idempotencyMiddleware sample_lib sample_config no_faults 6000
        (sample_request ''POST'' sample_key 12000)
        (sample_world (cached (Some 5000) 9000) (Some 5000))
      = (Inl expired_error, (sample_world (cached (Some 5000) 9000) (Some 5000))
           \<lparr>log := [RedisGet sample_cache_key]\<rparr>)
   \<and> RedisUtil_get no_faults 6000 (redisKey sample_config sample_key)
        (sample_world [] (Some 5000))
      = (Inr None, (sample_world [] (Some 5000))\<lparr>log := [RedisGet sample_cache_key]\<rparr>)
   \<and> IdempotencyMeta_findOne no_faults sample_key
        (sha256_hex sample_lib (req_body (sample_request ''POST'' sample_key 12000)))
        ((sample_world [] (Some 5000))\<lparr>log := [RedisGet sample_cache_key]\<rparr>)
      = (Inr (Some (sample_meta (Some 5000))), (sample_world [] (Some 5000))
           \<lparr>log := [RedisGet sample_cache_key, MetaFindOne sample_key ''5f2a'']\<rparr>)
   \<and> idempotencyMiddleware sample_lib sample_config no_faults 6000
        (sample_request ''POST'' sample_key 12000) (sample_world [] (Some 5000))
      = (Inl expired_error, (sample_world [] (Some 5000))
           \<lparr>log := [RedisGet sample_cache_key, MetaFindOne sample_key ''5f2a'']\<rparr>)"
  using expired_record_is_rejected
    [where req = "sample_request ''POST'' sample_key 12000"
      and cfg = sample_config and k = sample_key and flt = no_faults and now = 6000
      and w = "sample_world (cached (Some 5000) 9000) (Some 5000)" and lb = sample_lib
      and m = "sample_meta (Some 5000)" and t = 5000
      and w' = "(sample_world (cached (Some 5000) 9000) (Some 5000))
           \<lparr>log := [RedisGet sample_cache_key]\<rparr>"]
    expired_record_is_rejected
    [where req = "sample_request ''POST'' sample_key 12000"
      and cfg = sample_config and k = sample_key and flt = no_faults and now = 6000
      and w = "sample_world [] (Some 5000)" and lb = sample_lib
      and m = "sample_meta (Some 5000)" and t = 5000
      and w' = "(sample_world [] (Some 5000))
           \<lparr>log := [RedisGet sample_cache_key, MetaFindOne sample_key ''5f2a'']\<rparr>"]
  by (simp add: sample_defs middleware_defs)

text \<open>
  C9: a stored record \<open>m\<close> without \<open>expiredAt\<close>, whose payload is the JSON text of a
  response \<open>d\<close>, is replayed to a request with a protected method, a valid key and the
  same body hash, at any current time \<open>now\<close>: the expiry test is skipped. This holds
  when \<open>m\<close> is the record the cache returns, and when the cache returns nothing and
  \<open>m\<close> is the record the durable store returns.
\<close>

theorem record_without_expiredAt_is_replayed:
  assumes allowed: "req_method req \<in> set idempotentMethods"
    and valid: "valid_key (req_headers req (idempotencyKeyHeaderName cfg)) = Some k"
    and same: "bodyHash m = sha256_hex lb (req_body req)"
    and absent: "expiredAt m = None"
    and payload: "responsePayload m = JSON_stringify d"
    and stored: "RedisUtil_get flt now (redisKey cfg k) w = (Inr (Some m), w')
      \<or> (\<exists>w1. RedisUtil_get flt now (redisKey cfg k) w = (Inr None, w1)
            \<and> IdempotencyMeta_findOne flt k (sha256_hex lb (req_body req)) w1
                = (Inr (Some m), w'))"
  shows "idempotencyMiddleware lb cfg flt now req w = (Inr (Replay d), w')"
  using stored
proof
  assume "RedisUtil_get flt now (redisKey cfg k) w = (Inr (Some m), w')"
  with allowed valid same absent payload show ?thesis
    by (simp add: idempotencyMiddleware_def JSON_stringify_def)
next
  assume "\<exists>w1. RedisUtil_get flt now (redisKey cfg k) w = (Inr None, w1)
            \<and> IdempotencyMeta_findOne flt k (sha256_hex lb (req_body req)) w1
                = (Inr (Some m), w')"
  then obtain w1 where "RedisUtil_get flt now (redisKey cfg k) w = (Inr None, w1)"
    and "IdempotencyMeta_findOne flt k (sha256_hex lb (req_body req)) w1 = (Inr (Some m), w')"
    by blast
  with allowed valid same absent payload show ?thesis
    by (simp add: idempotencyMiddleware_def JSON_stringify_def)
qed

theorem record_without_expiredAt_is_replayed_witness:
  "req_method (sample_request ''POST'' sample_key 12000) \<in> set idempotentMethods
   \<and> valid_key (req_headers (sample_request ''POST'' sample_key 12000)
        (idempotencyKeyHeaderName sample_config)) = Some sample_key
   \<and> bodyHash (sample_meta None)
      = sha256_hex sample_lib (req_body (sample_request ''POST'' sample_key 12000))
   \<and> expiredAt (sample_meta None) = None
   \<and> responsePayload (sample_meta None) = JSON_stringify sample_response
   \<and> RedisUtil_get no_faults 99000000 (redisKey sample_config sample_key)
        (sample_world (cached None 99999999) None)
      = (Inr (Some (sample_meta None)),
         (sample_world (cached None 99999999) None)\<lparr>log := [RedisGet sample_cache_key]\<rparr>)
   \<and> idempotencyMiddleware sample_lib sample_config no_faults 99000000
        (sample_request ''POST'' sample_key 12000)
        (sample_world (cached None 99999999) None)
      = (Inr (Replay sample_response), (sample_world (cached None 99999999) None)
           \<lparr>log := [RedisGet sample_cache_key]\<rparr>)
   \<and> idempotencyMiddleware sample_lib sample_config no_faults 99000000
        (sample_request ''POST'' sample_key 12000) (sample_world [] None)
      = (Inr (Replay sample_response), (sample_world [] None)
           \<lparr>log := [RedisGet sample_cache_key, MetaFindOne sample_key ''5f2a'']\<rparr>)"
  using record_without_expiredAt_is_replayed
    [where req = "sample_request ''POST'' sample_key 12000"
      and cfg = sample_config and k = sample_key and flt = no_faults
      and now = 99000000
      and w = "sample_world (cached None 99999999) None" and lb = sample_lib
      and m = "sample_meta None" and d = sample_response
      and w' = "(sample_world (cached None 99999999) None)
           \<lparr>log := [RedisGet sample_cache_key]\<rparr>"]
    record_without_expiredAt_is_replayed
    [where req = "sample_request ''POST'' sample_key 12000"
      and cfg = sample_config and k = sample_key and flt = no_faults
      and now = 99000000
      and w = "sample_world [] None" and lb = sample_lib
      and m = "sample_meta None" and d = sample_response
      and w' = "(sample_world [] None)
           \<lparr>log := [RedisGet sample_cache_key, MetaFindOne sample_key ''5f2a'']\<rparr>"]
  by (simp add: sample_defs middleware_defs)

section \<open>The write-through of createTransaction\<close>

lemma try_failure_keeps_snapshot:
  assumes "createTransaction_try cfg flt now uuid k h r t = (Inl e, w')"
  shows "open_tx w' = open_tx t"
  using assms
  by (auto simp: service_defs Let_def split: option.splits if_splits)

lemma try_insert_failure:
  assumes "transaction_create_rejects flt \<noteq> None \<or> meta_create_rejects flt \<noteq> None
      \<or> k \<in> key ` set (idempotency_meta t) \<or> pg_uuid k = None
      \<or> pg_uuid k \<in> (\<lambda>m. pg_uuid (key m)) ` set (idempotency_meta t)"
  shows "\<exists>e w'. createTransaction_try cfg flt now uuid k h r t = (Inl e, w')
      \<and> redis w' = redis t"
proof -
  from assms have "transaction_create_rejects flt \<noteq> None \<or> meta_create_rejects flt \<noteq> None
      \<or> pg_uuid k = None
      \<or> pg_uuid k \<in> (\<lambda>m. pg_uuid (key m)) ` set (idempotency_meta t)"
    by auto
  then show ?thesis
    by (auto simp: service_defs Let_def split: option.splits if_splits)
qed

lemma rollback_restores:
  assumes "open_tx w' = Some (metas, txs)"
  shows "idempotency_meta (rollbackTransaction w') = metas
       \<and> transactions (rollbackTransaction w') = txs
       \<and> redis (rollbackTransaction w') = redis w'
       \<and> open_tx (rollbackTransaction w') = None"
  using assms by (simp add: rollbackTransaction_def Let_def)

lemma createTransaction_failure_restores:
  assumes run: "createTransaction lb cfg flt now uuid k h r w = (Inl e, w')"
  shows "idempotency_meta w' = idempotency_meta w \<and> transactions w' = transactions w"
proof (cases "valid_key (Some (HString k)) = None \<or> \<not> TransactionRequestSchema lb r")
  case True
  with run show ?thesis by (auto simp: createTransaction_def split: option.splits)
next
  case False
  obtain res t' where tr: "createTransaction_try cfg flt now uuid k h r (beginTransaction w) = (res, t')"
    by (cases "createTransaction_try cfg flt now uuid k h r (beginTransaction w)")
  from run False tr obtain x where x: "res = Inl x" and w': "w' = rollbackTransaction t'"
    by (auto simp: createTransaction_def Let_def split: option.splits sum.splits)
  from tr x have "open_tx t' = Some (idempotency_meta w, transactions w)"
    using try_failure_keeps_snapshot [of cfg flt now uuid k h r "beginTransaction w" x t']
    by (simp add: beginTransaction_def)
  from rollback_restores [OF this] w' show ?thesis by simp
qed

lemma createTransaction_success:
  assumes run: "createTransaction lb cfg flt now uuid k h r w = (Inr resp, w')"
  shows "valid_key (Some (HString k)) = Some k \<and> TransactionRequestSchema lb r
     \<and> pg_uuid k \<noteq> None
     \<and> pg_uuid k \<notin> (\<lambda>m. pg_uuid (key m)) ` set (idempotency_meta w)
     \<and> 0 < ttl_seconds cfg
     \<and> resp = \<lparr> res_id = uuid, res_type = req_type r, res_amount = req_amount r,
               res_status = ''pending'', res_consumerId = req_consumerId r,
               res_createdAt = now, res_updatedAt = Some now \<rparr>
     \<and> idempotency_meta w' = idempotency_meta w @
          [\<lparr> key = the (pg_uuid k), bodyHash = h, responsePayload = Stringified resp,
             createdAt = now, updatedAt = Some now,
             expiredAt = Some (now + ttl_millis cfg) \<rparr>]
     \<and> transactions w' = transactions w @
          [\<lparr> tx_id = uuid, tx_type = req_type r, tx_amount = req_amount r,
             tx_status = ''pending'', tx_consumerId = req_consumerId r,
             tx_createdAt = now, tx_updatedAt = Some now \<rparr>]
     \<and> redis w' = (redis w)(redisKey cfg k \<mapsto>
          (Stringified \<lparr> key = the (pg_uuid k), bodyHash = h,
             responsePayload = Stringified resp,
             createdAt = now, updatedAt = Some now,
             expiredAt = Some (now + ttl_millis cfg) \<rparr>, now + ttl_seconds cfg * 1000))
     \<and> open_tx w' = None
     \<and> log w' = log w @ [BeginTransaction, TransactionCreate uuid, MetaCreate k,
          RedisSet (redisKey cfg k), CommitTransaction]"
proof -
  from run have ok: "valid_key (Some (HString k)) = Some k" "TransactionRequestSchema lb r"
    by (auto simp: createTransaction_def split: option.splits if_splits)
  with run have "createTransaction_try cfg flt now uuid k h r (beginTransaction w) = (Inr resp, w')"
    by (auto simp: createTransaction_def Let_def split: sum.splits prod.splits)
  then show ?thesis using ok
    by (auto simp: service_defs beginTransaction_def JSON_stringify_def Let_def
        split: option.splits if_splits)
qed

text \<open>
  C6: when \<^verbatim>\<open>Transaction.create\<close> or \<^verbatim>\<open>IdempotencyMeta.create\<close> fails (the store
  rejects the call, the key is already in the table, the key is not a UUID, or its UUID
  is already in the table), \<^verbatim>\<open>createTransaction\<close> fails, and afterwards both tables
  of the durable store and the cache are what they were before the call: neither the
  transaction row nor the idempotency record remains.
\<close>

theorem failed_insert_rolls_back:
  assumes fails: "transaction_create_rejects flt \<noteq> None \<or> meta_create_rejects flt \<noteq> None
      \<or> k \<in> key ` set (idempotency_meta w) \<or> pg_uuid k = None
      \<or> pg_uuid k \<in> (\<lambda>m. pg_uuid (key m)) ` set (idempotency_meta w)"
    and run: "createTransaction lb cfg flt now uuid k h r w = (res, w')"
  shows "isl res \<and> idempotency_meta w' = idempotency_meta w
       \<and> transactions w' = transactions w \<and> redis w' = redis w"
proof (cases "valid_key (Some (HString k)) = None \<or> \<not> TransactionRequestSchema lb r")
  case True
  with run show ?thesis by (auto simp: createTransaction_def split: option.splits)
next
  case False
  from fails have "transaction_create_rejects flt \<noteq> None \<or> meta_create_rejects flt \<noteq> None
      \<or> k \<in> key ` set (idempotency_meta (beginTransaction w)) \<or> pg_uuid k = None
      \<or> pg_uuid k \<in> (\<lambda>m. pg_uuid (key m)) ` set (idempotency_meta (beginTransaction w))"
    by (simp add: beginTransaction_def)
  from try_insert_failure [OF this, of cfg now uuid h r]
  obtain x t' where tr: "createTransaction_try cfg flt now uuid k h r (beginTransaction w) = (Inl x, t')"
    and cache: "redis t' = redis (beginTransaction w)"
    by blast
  from run False tr have res: "res = Inl (createTransaction_catch x)"
    and w': "w' = rollbackTransaction t'"
    by (auto simp: createTransaction_def Let_def split: option.splits)
  from res run createTransaction_failure_restores [of lb cfg flt now uuid k h r w _ w']
  have tables: "idempotency_meta w' = idempotency_meta w \<and> transactions w' = transactions w"
    by simp
  from tr have "open_tx t' = Some (idempotency_meta w, transactions w)"
    using try_failure_keeps_snapshot [of cfg flt now uuid k h r "beginTransaction w" x t']
    by (simp add: beginTransaction_def)
  from rollback_restores [OF this] w' cache have "redis w' = redis w"
    by (simp add: beginTransaction_def)
  with res tables show ?thesis by simp
qed

theorem failed_insert_rolls_back_witness:
  "meta_create_rejects (no_faults\<lparr>meta_create_rejects := Some (DatabaseError ''deadlock'')\<rparr>)
     = Some (DatabaseError ''deadlock'')
   \<and> createTransaction sample_lib sample_config
        (no_faults\<lparr>meta_create_rejects := Some (DatabaseError ''deadlock'')\<rparr>)
        1000 first_id sample_key ''5f2a'' (payment 12000) empty_world
      = (Inl (AppError InternalServerError ''Database error''),
         empty_world\<lparr>log := [BeginTransaction, TransactionCreate first_id,
            MetaCreate sample_key, RollbackTransaction]\<rparr>)
   \<and> pg_uuid sample_key \<in> (\<lambda>m. pg_uuid (key m)) ` set (idempotency_meta (sample_world [] None))
   \<and> createTransaction sample_lib sample_config no_faults
        2000 second_id sample_key ''5f2a'' (payment 12000) (sample_world [] None)
      = (Inl (AppError BadRequest ''Validation errors occurred''),
         (sample_world [] None)\<lparr>log := [BeginTransaction, TransactionCreate second_id,
            MetaCreate sample_key, RollbackTransaction]\<rparr>)
   \<and> transactions ((sample_world [] None)\<lparr>log := [BeginTransaction,
            TransactionCreate second_id, MetaCreate sample_key, RollbackTransaction]\<rparr>)
      = transactions (sample_world [] None)"
  using failed_insert_rolls_back [where flt = "no_faults\<lparr>meta_create_rejects := Some (DatabaseError ''deadlock'')\<rparr>"
      and k = sample_key and w = empty_world and lb = sample_lib and cfg = sample_config
      and now = 1000 and uuid = first_id and h = "''5f2a''" and r = "payment 12000"
      and res = "Inl (AppError InternalServerError ''Database error'')"
      and w' = "empty_world\<lparr>log := [BeginTransaction, TransactionCreate first_id,
            MetaCreate sample_key, RollbackTransaction]\<rparr>"]
    failed_insert_rolls_back [where flt = no_faults
      and k = sample_key and w = "sample_world [] None" and lb = sample_lib
      and cfg = sample_config
      and now = 2000 and uuid = second_id and h = "''5f2a''" and r = "payment 12000"
      and res = "Inl (AppError BadRequest ''Validation errors occurred'')"
      and w' = "(sample_world [] None)\<lparr>log := [BeginTransaction,
            TransactionCreate second_id, MetaCreate sample_key, RollbackTransaction]\<rparr>"]
  by (simp add: sample_defs sample_service_defs)

text \<open>
  C2, as the claim states it, fails: with a cache write that rejects,
  \<^verbatim>\<open>createTransaction\<close> returns an error, and the log shows the cache write after
  the two inserts, followed by the rollback; no commit was made. In the call that
  succeeds, the cache write comes before the commit.
\<close>

theorem cache_write_failure_is_fatal_counterexample:
  "createTransaction sample_lib sample_config
      (no_faults\<lparr>redis_set_rejects := Some ''ECONNRESET''\<rparr>)
      1000 first_id sample_key ''5f2a'' (payment 12000) empty_world
   = (Inl (AppError InternalServerError
            ''An unexpected error occurred while creating the transaction''),
      empty_world\<lparr>log := [BeginTransaction, TransactionCreate first_id,
         MetaCreate sample_key, RedisSet sample_cache_key, RollbackTransaction]\<rparr>)
   \<and> log (snd (createTransaction sample_lib sample_config no_faults
        1000 first_id sample_key ''5f2a'' (payment 12000) empty_world))
     = [BeginTransaction, TransactionCreate first_id, MetaCreate sample_key,
        RedisSet sample_cache_key, CommitTransaction]"
  by (simp add: sample_defs sample_service_defs)

text \<open>
  C2, amended: in \<^verbatim>\<open>createTransaction\<close> the cache write comes after the durable
  insert and before the commit (a call that succeeds has made exactly these store
  accesses, in this order); when both inserts work and the cache write fails, the call
  fails, no commit is attempted and the transaction is rolled back, so both tables are
  as before.
\<close>

theorem cache_write_inside_transaction:
  assumes valid: "valid_key (Some (HString k)) = Some k"
    and schema: "TransactionRequestSchema lb r"
    and run: "createTransaction lb cfg flt now uuid k h r w = (res, w')"
  shows "(\<not> isl res \<longrightarrow>
            log w' = log w @ [BeginTransaction, TransactionCreate uuid, MetaCreate k,
              RedisSet (redisKey cfg k), CommitTransaction])
       \<and> (transaction_create_rejects flt = None \<and> meta_create_rejects flt = None
            \<and> pg_uuid k \<noteq> None
            \<and> pg_uuid k \<notin> (\<lambda>m. pg_uuid (key m)) ` set (idempotency_meta w)
            \<and> (getClient_falsy flt \<or> redis_set_rejects flt \<noteq> None \<or> redis_set_not_OK flt
                 \<or> ttl_seconds cfg \<le> 0) \<longrightarrow>
            isl res \<and> idempotency_meta w' = idempotency_meta w
            \<and> transactions w' = transactions w
            \<and> log w' = log w @ [BeginTransaction, TransactionCreate uuid, MetaCreate k]
                 @ (if getClient_falsy flt then [] else [RedisSet (redisKey cfg k)])
                 @ [RollbackTransaction])"
proof (rule conjI)
  show "\<not> isl res \<longrightarrow>
            log w' = log w @ [BeginTransaction, TransactionCreate uuid, MetaCreate k,
              RedisSet (redisKey cfg k), CommitTransaction]"
  proof (rule impI)
    assume "\<not> isl res"
    then obtain resp where "res = Inr resp" by (cases res) auto
    with run createTransaction_success [of lb cfg flt now uuid k h r w resp w']
    show "log w' = log w @ [BeginTransaction, TransactionCreate uuid, MetaCreate k,
              RedisSet (redisKey cfg k), CommitTransaction]"
      by simp
  qed
  from valid schema run
  show "transaction_create_rejects flt = None \<and> meta_create_rejects flt = None
            \<and> pg_uuid k \<noteq> None
            \<and> pg_uuid k \<notin> (\<lambda>m. pg_uuid (key m)) ` set (idempotency_meta w)
            \<and> (getClient_falsy flt \<or> redis_set_rejects flt \<noteq> None \<or> redis_set_not_OK flt
                 \<or> ttl_seconds cfg \<le> 0) \<longrightarrow>
            isl res \<and> idempotency_meta w' = idempotency_meta w
            \<and> transactions w' = transactions w
            \<and> log w' = log w @ [BeginTransaction, TransactionCreate uuid, MetaCreate k]
                 @ (if getClient_falsy flt then [] else [RedisSet (redisKey cfg k)])
                 @ [RollbackTransaction]"
    by (auto simp: createTransaction_def service_defs beginTransaction_def
        rollbackTransaction_def Let_def split: option.splits if_splits)
qed

theorem cache_write_inside_transaction_witness:
  "valid_key (Some (HString sample_key)) = Some sample_key
   \<and> TransactionRequestSchema sample_lib (payment 12000)
   \<and> createTransaction sample_lib sample_config no_faults 1000 first_id
        sample_key ''5f2a'' (payment 12000) empty_world
      = (Inr sample_response,
         (sample_world (cached (Some 3601000) 3601000) (Some 3601000))
           \<lparr>log := [BeginTransaction, TransactionCreate first_id,
              MetaCreate sample_key, RedisSet sample_cache_key, CommitTransaction]\<rparr>)
   \<and> pg_uuid sample_key = Some sample_key
   \<and> redis_set_not_OK (no_faults\<lparr>redis_set_not_OK := True\<rparr>)
   \<and> createTransaction sample_lib sample_config (no_faults\<lparr>redis_set_not_OK := True\<rparr>)
        1000 first_id sample_key ''5f2a'' (payment 12000) empty_world
      = (Inl (AppError Plain ''Cache set error''),
         empty_world\<lparr>log := [BeginTransaction, TransactionCreate first_id,
            MetaCreate sample_key, RedisSet sample_cache_key, RollbackTransaction]\<rparr>)
   \<and> isl (Inl (AppError Plain ''Cache set error'') :: app_error + TransactionResponse)
   \<and> transactions (empty_world\<lparr>log := [BeginTransaction, TransactionCreate first_id,
            MetaCreate sample_key, RedisSet sample_cache_key, RollbackTransaction]\<rparr>)
      = transactions empty_world"
  using cache_write_inside_transaction [where k = sample_key and lb = sample_lib
      and r = "payment 12000" and cfg = sample_config and flt = no_faults and now = 1000
      and uuid = first_id and h = "''5f2a''" and w = empty_world
      and res = "Inr sample_response"
      and w' = "(sample_world (cached (Some 3601000) 3601000) (Some 3601000))
           \<lparr>log := [BeginTransaction, TransactionCreate first_id,
              MetaCreate sample_key, RedisSet sample_cache_key, CommitTransaction]\<rparr>"]
    cache_write_inside_transaction [where k = sample_key and lb = sample_lib
      and r = "payment 12000" and cfg = sample_config
      and flt = "no_faults\<lparr>redis_set_not_OK := True\<rparr>" and now = 1000
      and uuid = first_id and h = "''5f2a''" and w = empty_world
      and res = "Inl (AppError Plain ''Cache set error'')"
      and w' = "empty_world\<lparr>log := [BeginTransaction, TransactionCreate first_id,
            MetaCreate sample_key, RedisSet sample_cache_key, RollbackTransaction]\<rparr>"]
  by (simp add: sample_defs sample_service_defs)

text \<open>
  C3, as the claim states it, fails: the durable store already holds a record for the
  UUID of the key, the insert of a second one is refused, and \<^verbatim>\<open>createTransaction\<close>
  answers with a 400 error after the rollback; the log shows no lookup after the
  refused insert.
\<close>

theorem unique_violation_surfaces_counterexample:
  "pg_uuid sample_key = Some sample_key
   \<and> key (sample_meta (Some 3601000)) = sample_key
   \<and> createTransaction sample_lib sample_config no_faults 2000 second_id
      sample_key ''5f2a'' (payment 12000) (sample_world [] (Some 3601000))
   = (Inl (AppError BadRequest ''Validation errors occurred''),
      (sample_world [] (Some 3601000))
        \<lparr>log := [BeginTransaction, TransactionCreate second_id,
           MetaCreate sample_key, RollbackTransaction]\<rparr>)"
  by (simp add: sample_defs sample_service_defs)

text \<open>
  C3, amended: when the insert of the idempotency record is refused because the UUID
  of the key is already in the table, \<^verbatim>\<open>createTransaction\<close> rolls the transaction
  back and returns the error 400 "Validation errors occurred" to the caller; it makes no
  further store access, so no lookup is run again.
\<close>

theorem unique_violation_surfaces_as_error:
  assumes valid: "valid_key (Some (HString k)) = Some k"
    and schema: "TransactionRequestSchema lb r"
    and works: "transaction_create_rejects flt = None" "meta_create_rejects flt = None"
    and uuid_key: "pg_uuid k \<noteq> None"
    and taken: "pg_uuid k \<in> (\<lambda>m. pg_uuid (key m)) ` set (idempotency_meta w)"
  shows "createTransaction lb cfg flt now uuid k h r w
     = (Inl (AppError BadRequest ''Validation errors occurred''),
        w\<lparr>open_tx := None,
          log := log w @ [BeginTransaction, TransactionCreate uuid, MetaCreate k,
                   RollbackTransaction]\<rparr>)"
proof -
  from uuid_key obtain u where u: "pg_uuid k = Some u" by auto
  with taken have "Some u \<in> (\<lambda>m. pg_uuid (key m)) ` set (idempotency_meta w)" by simp
  with valid schema works u show ?thesis
    by (simp add: createTransaction_def service_defs beginTransaction_def
        rollbackTransaction_def createTransaction_catch_def Let_def)
qed

theorem unique_violation_surfaces_as_error_witness:
  "valid_key (Some (HString sample_key)) = Some sample_key
   \<and> TransactionRequestSchema sample_lib (payment 12000)
   \<and> transaction_create_rejects no_faults = None \<and> meta_create_rejects no_faults = None
   \<and> pg_uuid ''{7C9E6679-7425-40DE-944B-E07FC1F90AE7}'' = Some sample_key
   \<and> pg_uuid sample_key
       \<in> (\<lambda>m. pg_uuid (key m)) ` set (idempotency_meta (sample_world [] (Some 3601000)))
   \<and> createTransaction sample_lib sample_config no_faults 2000 second_id
        sample_key ''5f2a'' (payment 12000) (sample_world [] (Some 3601000))
      = (Inl (AppError BadRequest ''Validation errors occurred''),
         (sample_world [] (Some 3601000))
           \<lparr>open_tx := None,
             log := log (sample_world [] (Some 3601000)) @
               [BeginTransaction, TransactionCreate second_id,
                MetaCreate sample_key, RollbackTransaction]\<rparr>)"
  using unique_violation_surfaces_as_error [where k = sample_key and lb = sample_lib
      and r = "payment 12000" and cfg = sample_config and flt = no_faults and now = 2000
      and uuid = second_id and h = "''5f2a''" and w = "sample_world [] (Some 3601000)"]
  by (simp add: sample_defs sample_service_defs other_spelling_same_uuid)

section \<open>Two requests with one key\<close>

text \<open>
  C1 at a concrete input: the durable store holds the record of the UUID key
  \<open>sample_key\<close> for the body with amount 12000, and the request carries the same key
  with amount 15000 (another body hash). With the record in the cache the middleware
  answers with the conflict error. With an empty cache the middleware admits the
  request; the route then fails with 400 "Validation errors occurred" after the
  rollback of the refused insert, not with the conflict error.
\<close>

theorem conflict_missed_without_cache:
  "pg_uuid sample_key = Some sample_key
   \<and> fst (idempotencyMiddleware sample_lib sample_config no_faults 2000
          (sample_request ''POST'' sample_key 15000)
          (sample_world (cached (Some 3601000) 3601000) (Some 3601000)))
     = Inl conflict_error
   \<and> fst (idempotencyMiddleware sample_lib sample_config no_faults 2000
          (sample_request ''POST'' sample_key 15000)
          (sample_world [] (Some 3601000)))
     = Inr (Admit \<lparr> ctx_key = sample_key, ctx_bodyHash = ''c81e'' \<rparr>)
   \<and> post_transactions sample_lib sample_config no_faults 2000 second_id
          (sample_request ''POST'' sample_key 15000)
          (sample_world [] (Some 3601000))
     = (Inl (AppError BadRequest ''Validation errors occurred''),
        (sample_world [] (Some 3601000))
          \<lparr>log := [RedisGet sample_cache_key, MetaFindOne sample_key ''c81e'',
             BeginTransaction, TransactionCreate second_id, MetaCreate sample_key,
             RollbackTransaction]\<rparr>)"
  by (simp add: sample_defs middleware_defs sample_service_defs route_defs)












end
